theory Spec2Isabelle
  imports Complex_Main
begin

section \<open>The connectivity monitor (components/InternetConnectionCheck.tsx)\<close>

text \<open>
  The component keeps three pieces of React state, \<open>isConnected\<close> (boolean or null),
  \<open>isChecking\<close> and \<open>lastChecked\<close> (a Date or null; here the clock reading as a number
  of milliseconds).  JavaScript runs one continuation at a time, so the component is
  modelled as a state machine whose steps are the continuations of the source: a call of
  \<open>checkConnection\<close> up to its first \<open>await\<close>, the code after \<open>await NetInfo.fetch()\<close>,
  the code after \<open>await fetch(...)\<close>, and the NetInfo listener.

  Each step comes with the reading of the clock at that moment, which is what
  \<open>new Date()\<close> gives in it.

  Beside the React state the model records what the runtime holds: the calls of
  \<open>checkConnection\<close> that are suspended at an \<open>await\<close> (\<open>inflight\<close>, keyed by the order
  in which they were started, \<open>nextId\<close> being the number of calls so far) and the calls
  for which the request to google.com has been issued (\<open>probes\<close>).
\<close>

datatype stage =
    AwaitNetInfo      \<comment> \<open>suspended at \<open>await NetInfo.fetch()\<close>\<close>
  | AwaitProbe nat    \<comment> \<open>suspended at \<open>await fetch(...)\<close>; the abort timer was armed at this time\<close>

record monitor =
  isConnected :: "bool option"
  isChecking :: bool
  lastChecked :: "nat option"
  inflight :: "nat \<rightharpoonup> stage"
  nextId :: nat
  probes :: "nat list"

text \<open>JavaScript truthiness of a value of type \<open>boolean | null\<close>.\<close>

definition truthy :: "bool option \<Rightarrow> bool" where
  "truthy v = (v = Some True)"

text \<open>
  The calls of the three state setters.  The setters called by one continuation are
  applied together when the continuation has run: the application enables React
  Native's new architecture (\<open>newArchEnabled\<close> in app.json), where React batches every
  update of one synchronous run into one render.
\<close>

datatype setter = SetIsConnected bool | SetIsChecking bool | SetLastChecked nat

fun apply_setter :: "monitor \<Rightarrow> setter \<Rightarrow> monitor" where
  "apply_setter s (SetIsConnected b) = s\<lparr>isConnected := Some b\<rparr>"
| "apply_setter s (SetIsChecking b) = s\<lparr>isChecking := b\<rparr>"
| "apply_setter s (SetLastChecked t) = s\<lparr>lastChecked := Some t\<rparr>"

definition commit :: "setter list \<Rightarrow> monitor \<Rightarrow> monitor" where
  "commit us s = foldl apply_setter s us"

text \<open>The bound of the abort timer: \<open>setTimeout(() => controller.abort(), 5000)\<close>.\<close>

definition probe_timeout :: nat where
  "probe_timeout = 5000"

text \<open>
  \<open>checkConnection\<close> up to \<open>await NetInfo.fetch()\<close>: \<open>setIsChecking(true)\<close>, and the call
  is suspended.
\<close>

definition checkConnection :: "monitor \<Rightarrow> setter list \<times> monitor" where
  "checkConnection s =
     ([SetIsChecking True],
      s\<lparr>inflight := (inflight s)(nextId s \<mapsto> AwaitNetInfo), nextId := Suc (nextId s)\<rparr>)"

definition catch_block :: "setter list" where
  "catch_block = [SetIsConnected False]"

definition finally_block :: "nat \<Rightarrow> setter list" where
  "finally_block now = [SetLastChecked now, SetIsChecking False]"

text \<open>
  How \<open>NetInfo.fetch()\<close> settles: with a state whose \<open>isConnected\<close> is a boolean or
  null, or by rejecting.
\<close>

datatype netinfo_result = Fetched "bool option" | FetchRejected

text \<open>
  The code after \<open>await NetInfo.fetch()\<close> of call \<open>i\<close>.  When NetInfo reports no
  connection the three setters are called and the function returns, through the
  \<open>finally\<close> block, which calls two of them again; no request is made.  Otherwise the
  abort timer is armed and the request is issued.
\<close>

definition netinfo_settled :: "nat \<Rightarrow> nat \<Rightarrow> netinfo_result \<Rightarrow> monitor \<Rightarrow> setter list \<times> monitor" where
  "netinfo_settled now i r s =
     (case r of
        FetchRejected \<Rightarrow>
          (catch_block @ finally_block now, s\<lparr>inflight := (inflight s)(i := None)\<rparr>)
      | Fetched st \<Rightarrow>
          if \<not> truthy st then
            ([SetIsConnected False, SetLastChecked now, SetIsChecking False] @ finally_block now,
             s\<lparr>inflight := (inflight s)(i := None)\<rparr>)
          else
            ([], s\<lparr>inflight := (inflight s)(i \<mapsto> AwaitProbe now), probes := i # probes s\<rparr>))"

text \<open>
  How the request settles: with a response (\<open>response.ok\<close>), by a network error, or
  because the timer ran \<open>controller.abort()\<close>.
\<close>

datatype probe_result = Response bool | NetworkError | Aborted

text \<open>The code after \<open>await fetch(...)\<close> of call \<open>i\<close>.\<close>

definition probe_settled :: "nat \<Rightarrow> nat \<Rightarrow> probe_result \<Rightarrow> monitor \<Rightarrow> setter list \<times> monitor" where
  "probe_settled now i r s =
     ((case r of Response ok \<Rightarrow> [SetIsConnected ok] | NetworkError \<Rightarrow> catch_block | Aborted \<Rightarrow> catch_block)
        @ finally_block now,
      s\<lparr>inflight := (inflight s)(i := None)\<rparr>)"

text \<open>
  What can happen to a mounted component.  \<open>IntervalTick\<close> is the 30 second interval,
  \<open>PressVerify\<close> the button (disabled while \<open>isChecking\<close>), \<open>NetInfoChanged\<close> the
  listener given to \<open>NetInfo.addEventListener\<close>; the others resume a suspended call.
  The timer of a call can fire only once its 5000 ms have passed, and it has no effect
  on a request that is already settled.
\<close>

datatype mevent =
    IntervalTick
  | PressVerify
  | NetInfoChanged "bool option"
  | NetInfoSettled nat netinfo_result
  | ProbeResponded nat bool
  | ProbeFailed nat
  | TimeoutFired nat

definition handler :: "nat \<Rightarrow> mevent \<Rightarrow> monitor \<Rightarrow> setter list \<times> monitor" where
  "handler now e s =
     (case e of
        IntervalTick \<Rightarrow> checkConnection s
      | PressVerify \<Rightarrow> if isChecking s then ([], s) else checkConnection s
      | NetInfoChanged st \<Rightarrow>
          if \<not> truthy st then ([SetIsConnected False, SetLastChecked now], s)
          else checkConnection s
      | NetInfoSettled i r \<Rightarrow>
          (case inflight s i of
             Some AwaitNetInfo \<Rightarrow> netinfo_settled now i r s
           | _ \<Rightarrow> ([], s))
      | ProbeResponded i ok \<Rightarrow>
          (case inflight s i of
             Some (AwaitProbe t0) \<Rightarrow> probe_settled now i (Response ok) s
           | _ \<Rightarrow> ([], s))
      | ProbeFailed i \<Rightarrow>
          (case inflight s i of
             Some (AwaitProbe t0) \<Rightarrow> probe_settled now i NetworkError s
           | _ \<Rightarrow> ([], s))
      | TimeoutFired i \<Rightarrow>
          (case inflight s i of
             Some (AwaitProbe t0) \<Rightarrow>
               if t0 + probe_timeout \<le> now then probe_settled now i Aborted s else ([], s)
           | _ \<Rightarrow> ([], s)))"

definition step :: "nat \<Rightarrow> mevent \<Rightarrow> monitor \<Rightarrow> monitor" where
  "step now e s = commit (fst (handler now e s)) (snd (handler now e s))"

fun run :: "monitor \<Rightarrow> (nat \<times> mevent) list \<Rightarrow> monitor" where
  "run s [] = s"
| "run s ((now, e) # evs) = run (step now e s) evs"

text \<open>The state of \<open>useState\<close> at the first render, and the mount effect, which calls
  \<open>checkConnection()\<close> at once.\<close>

definition initial :: monitor where
  "initial = \<lparr>isConnected = None, isChecking = False, lastChecked = None,
              inflight = Map.empty, nextId = 0, probes = []\<rparr>"

definition mounted_monitor :: monitor where
  "mounted_monitor = commit (fst (checkConnection initial)) (snd (checkConnection initial))"

text \<open>An event that ends a call of \<open>checkConnection\<close>: the check is completed.\<close>

definition completes :: "nat \<Rightarrow> mevent \<Rightarrow> monitor \<Rightarrow> bool" where
  "completes now e s =
     (case e of
        NetInfoSettled i r \<Rightarrow>
          inflight s i = Some AwaitNetInfo \<and> (case r of FetchRejected \<Rightarrow> True | Fetched st \<Rightarrow> \<not> truthy st)
      | ProbeResponded i ok \<Rightarrow> (case inflight s i of Some (AwaitProbe t0) \<Rightarrow> True | _ \<Rightarrow> False)
      | ProbeFailed i \<Rightarrow> (case inflight s i of Some (AwaitProbe t0) \<Rightarrow> True | _ \<Rightarrow> False)
      | TimeoutFired i \<Rightarrow>
          (case inflight s i of Some (AwaitProbe t0) \<Rightarrow> t0 + probe_timeout \<le> now | _ \<Rightarrow> False)
      | _ \<Rightarrow> False)"

text \<open>Whether a batch of setter calls writes the status, or the timestamp.\<close>

fun is_status_write :: "setter \<Rightarrow> bool" where
  "is_status_write (SetIsConnected b) = True"
| "is_status_write (SetIsChecking b) = False"
| "is_status_write (SetLastChecked t) = False"

fun is_timestamp_write :: "setter \<Rightarrow> bool" where
  "is_timestamp_write (SetIsConnected b) = False"
| "is_timestamp_write (SetIsChecking b) = False"
| "is_timestamp_write (SetLastChecked t) = True"

text \<open>
  Two invariants of the bookkeeping: every suspended call and every issued request
  belongs to a call that was started, and a call still waiting for NetInfo has issued no
  request; and, for a call that has ended without a request, that it stays so.
\<close>

definition wf :: "monitor \<Rightarrow> bool" where
  "wf s = ((\<forall>i. inflight s i \<noteq> None \<longrightarrow> i < nextId s) \<and>
           (\<forall>i \<in> set (probes s). i < nextId s) \<and>
           (\<forall>i. inflight s i = Some AwaitNetInfo \<longrightarrow> i \<notin> set (probes s)))"

definition ended_unprobed :: "nat \<Rightarrow> monitor \<Rightarrow> bool" where
  "ended_unprobed i s = (i < nextId s \<and> inflight s i = None \<and> i \<notin> set (probes s))"

text \<open>
  A race between two checks.  The mount effect has started check 0; the NetInfo listener
  is called with a connected state and starts check 1.  Both see an active interface
  and issue their requests; the request of check 1 is answered after 300 ms, the request
  of check 0 is still pending then.
\<close>

definition race_prefix :: "(nat \<times> mevent) list" where
  "race_prefix =
     [(0, NetInfoChanged (Some True)),
      (10, NetInfoSettled 0 (Fetched (Some True))),
      (12, NetInfoSettled 1 (Fetched (Some True))),
      (300, ProbeResponded 1 True)]"

section \<open>Numbers as text: \<open>Number.prototype.toFixed\<close>\<close>

text \<open>
  The screen prints coordinates with \<open>toFixed\<close>.  A JavaScript number is a binary
  floating-point value, that is, a rational number; \<open>toFixed(f)\<close> takes the integer \<open>n\<close>
  for which \<open>n / 10^f\<close> is nearest to the absolute value (the larger one of two), writes
  it in decimal, pads it with zeros to \<open>f + 1\<close> digits, puts the point before the last
  \<open>f\<close> digits and the sign in front.  (Values of magnitude \<open>10^21\<close> or more, which it
  prints with an exponent, and the values that are not numbers are outside this model;
  no coordinate is near them.)

  A JavaScript string is a sequence of UTF-16 code units.  The two code units beyond
  ASCII that the screen uses, U+00F3 and U+00B1, are written as the \<open>char\<close> of that
  number.
\<close>

definition o_acute :: char where
  "o_acute = char_of (243 :: nat)"

definition plus_minus :: char where
  "plus_minus = char_of (177 :: nat)"

definition digit_char :: "nat \<Rightarrow> char" where
  "digit_char d = ''0123456789'' ! d"

fun decimal :: "nat \<Rightarrow> string" where
  "decimal n = (if n < 10 then [digit_char n] else decimal (n div 10) @ [digit_char (n mod 10)])"

declare decimal.simps [simp del]

definition fixed_digits :: "nat \<Rightarrow> bool \<Rightarrow> nat \<Rightarrow> string" where
  "fixed_digits f negative n =
     (let m = decimal n;
          m' = (if length m \<le> f then replicate (Suc f - length m) CHR ''0'' @ m else m);
          k = length m'
      in (if negative then ''-'' else [])
           @ (if f = 0 then m' else take (k - f) m' @ ''.'' @ drop (k - f) m'))"

definition toFixed :: "nat \<Rightarrow> rat \<Rightarrow> string" where
  "toFixed f x = fixed_digits f (x < 0) (nat \<lfloor>\<bar>x\<bar> * 10 ^ f + 1 / 2\<rfloor>)"

section \<open>The screen (app/index.tsx)\<close>

record LatLng =
  latitude :: rat
  longitude :: rat

record Coords = LatLng +
  accuracy :: "rat option"

record LocationObject =
  coords :: Coords

record Region = LatLng +
  latitudeDelta :: rat
  longitudeDelta :: rat

text \<open>The status of a permission response of expo-location.\<close>

datatype PermissionStatus = Granted | Denied | Undetermined

text \<open>
  What a rejected promise carries: an \<open>Error\<close> with its message, or some other value.
  \<open>errorMessage\<close> is \<open>error instanceof Error ? error.message : 'Error desconocido'\<close>.
\<close>

datatype thrown = ErrorObject string | OtherValue

fun errorMessage :: "thrown \<Rightarrow> string" where
  "errorMessage (ErrorObject m) = m"
| "errorMessage OtherValue = ''Error desconocido''"

text \<open>The calls of \<open>Alert.alert\<close>, named by their titles and messages.\<close>

datatype alert =
    SinConexion               \<comment> \<open>'Sin conexion a Internet', from \<open>checkInternetConnection\<close>\<close>
  | ConexionRestablecida      \<comment> \<open>'Conexion restablecida', from the NetInfo listener\<close>
  | ConexionPerdida           \<comment> \<open>'Conexion perdida', from the NetInfo listener\<close>
  | ErrorUbicacion            \<comment> \<open>'Error', 'No se pudo obtener la ubicacion actual'\<close>
  | PermisoDenegado           \<comment> \<open>'Permiso denegado'\<close>
  | SeguimientoActivado       \<comment> \<open>'Seguimiento activado'\<close>
  | ErrorSeguimiento string   \<comment> \<open>'Error', 'No se pudo iniciar el seguimiento: ' and the message\<close>

datatype startup =
    AwaitPermission   \<comment> \<open>suspended at \<open>await Location.requestForegroundPermissionsAsync()\<close>\<close>
  | AwaitPosition     \<comment> \<open>suspended at \<open>await Location.getCurrentPositionAsync(...)\<close>\<close>
  | Settled

text \<open>
  The React state of \<open>LocationApp\<close> (\<open>isConnected\<close> is named \<open>isConnected_app\<close> here, the
  monitor has a state of the same name), and what the runtime holds: where the startup
  effect is, the \<open>isConnected\<close> that the subscribed NetInfo listener has closed over
  (that of the render in which the connectivity effect ran last), how many calls of
  \<open>checkInternetConnection\<close> are suspended at \<open>NetInfo.fetch()\<close>, how often \<open>getCurrentPositionAsync\<close> has been called, the live
  subscriptions made by \<open>watchPositionAsync\<close> (each with the \<open>region\<close> its callback has
  closed over), the alerts shown and the calls of \<open>animateToRegion\<close>.
\<close>

record screen =
  location :: "LocationObject option"
  errorMsg :: "string option"
  loading :: bool
  region :: "Region option"
  isConnected_app :: "bool option"
  startup :: startup
  closure_isConnected :: "bool option"
  netFetches :: nat
  positionFetches :: nat
  watchers :: "Region option list"
  alerts :: "alert list"
  animations :: "Region list"

definition show_alert :: "alert \<Rightarrow> screen \<Rightarrow> screen" where
  "show_alert a s = s\<lparr>alerts := alerts s @ [a]\<rparr>"

subsection \<open>What is rendered\<close>

record Marker =
  coordinate :: LatLng
  title :: string
  description :: string

record MapPanel =
  initialRegion :: "Region option"
  markers :: "Marker list"
  infoBox :: "string list"

datatype view =
    LoadingView
  | ErrorView string
  | MainView "MapPanel option"   \<comment> \<open>the monitor, and the map section or 'No se pudo obtener la ubicacion'\<close>

definition map_panel :: "LocationObject \<Rightarrow> screen \<Rightarrow> MapPanel" where
  "map_panel loc s =
     \<lparr>initialRegion = region s,
      markers =
        [\<lparr>coordinate = \<lparr>latitude = latitude (coords loc), longitude = longitude (coords loc)\<rparr>,
          title = ''Mi ubicaci'' @ [o_acute] @ ''n'',
          description = ''Lat: '' @ toFixed 6 (latitude (coords loc)) @ '', Lng: ''
                          @ toFixed 6 (longitude (coords loc))\<rparr>],
      infoBox =
        [''Latitud: '' @ toFixed 6 (latitude (coords loc)),
         ''Longitud: '' @ toFixed 6 (longitude (coords loc)),
         ''Precisi'' @ [o_acute] @ ''n: '' @ [plus_minus]
            @ (case accuracy (coords loc) of Some a \<Rightarrow> toFixed 0 a | None \<Rightarrow> [])
            @ '' metros'',
         ''Internet: '' @ (if truthy (isConnected_app s) then ''Conectado''
                          else ''Sin conexi'' @ [o_acute] @ ''n'')]\<rparr>"

definition main_view :: "screen \<Rightarrow> view" where
  "main_view s = MainView (case location s of Some loc \<Rightarrow> Some (map_panel loc s) | None \<Rightarrow> None)"

definition render :: "screen \<Rightarrow> view" where
  "render s =
     (if loading s then LoadingView
      else case errorMsg s of
             Some m \<Rightarrow> if m \<noteq> [] then ErrorView m else main_view s
           | None \<Rightarrow> main_view s)"

text \<open>
  The \<open>MapView\<close>, and with it \<open>mapRef.current\<close> and the two buttons, exists when the main
  view is rendered with a location.
\<close>

definition map_shown :: "screen \<Rightarrow> bool" where
  "map_shown s = (case render s of MainView (Some p) \<Rightarrow> True | _ \<Rightarrow> False)"

subsection \<open>The connectivity effect\<close>

text \<open>
  The effect calls \<open>checkInternetConnection()\<close>, which is suspended at once, and
  subscribes a listener that has closed over the \<open>isConnected\<close> of the render in which
  the effect runs.  Its dependency list is \<open>[isConnected]\<close>: when \<open>isConnected\<close> has
  changed, React renders again and then runs the cleanup (unsubscribe) and the effect
  again.  That happens some time after the call of \<open>setIsConnected\<close>, not within it,
  so it is a step of its own, \<open>effects_flushed\<close>; until it is taken the subscribed
  listener still compares with the value it closed over.
\<close>

definition connectivity_effect :: "screen \<Rightarrow> screen" where
  "connectivity_effect s =
     s\<lparr>closure_isConnected := isConnected_app s, netFetches := Suc (netFetches s)\<rparr>"

definition effects_flushed :: "screen \<Rightarrow> screen" where
  "effects_flushed s =
     (if isConnected_app s \<noteq> closure_isConnected s then connectivity_effect s else s)"

text \<open>The code of \<open>checkInternetConnection\<close> after \<open>await NetInfo.fetch()\<close>.\<close>

definition checkInternetConnection :: "bool option \<Rightarrow> screen \<Rightarrow> screen" where
  "checkInternetConnection st s =
     (let s1 = s\<lparr>isConnected_app := st, netFetches := netFetches s - 1\<rparr>
      in if \<not> truthy st then show_alert SinConexion s1 else s1)"

text \<open>The listener; \<open>captured\<close> is the \<open>isConnected\<close> it has closed over, \<open>st\<close> is
  \<open>state.isConnected\<close>.\<close>

definition listener :: "bool option \<Rightarrow> bool option \<Rightarrow> screen \<Rightarrow> screen" where
  "listener captured st s =
     (let s1 = s\<lparr>isConnected_app := st\<rparr>
      in if truthy st \<and> \<not> truthy captured then show_alert ConexionRestablecida s1
         else if \<not> truthy st \<and> truthy captured then show_alert ConexionPerdida s1
         else s1)"

subsection \<open>The startup effect\<close>

definition permission_message :: string where
  "permission_message = ''Se requiere permiso para acceder a la ubicaci'' @ [o_acute] @ ''n''"

definition permission_settled :: "PermissionStatus \<Rightarrow> screen \<Rightarrow> screen" where
  "permission_settled status s =
     (if status \<noteq> Granted then
        s\<lparr>errorMsg := Some permission_message, loading := False, startup := Settled\<rparr>
      else s\<lparr>positionFetches := Suc (positionFetches s), startup := AwaitPosition\<rparr>)"

definition position_settled :: "thrown + LocationObject \<Rightarrow> screen \<Rightarrow> screen" where
  "position_settled r s =
     (case r of
        Inr currentLocation \<Rightarrow>
          s\<lparr>location := Some currentLocation,
            region := Some \<lparr>latitude = latitude (coords currentLocation),
                            longitude = longitude (coords currentLocation),
                            latitudeDelta = 1 / 100, longitudeDelta = 1 / 100\<rparr>,
            loading := False, startup := Settled\<rparr>
      | Inl error \<Rightarrow>
          show_alert ErrorUbicacion
            (s\<lparr>errorMsg := Some (''Error al obtener la ubicaci'' @ [o_acute] @ ''n: '' @ errorMessage error),
              loading := False, startup := Settled\<rparr>))"

subsection \<open>The buttons and the watch callback\<close>

definition centerMapOnLocation :: "screen \<Rightarrow> screen" where
  "centerMapOnLocation s =
     (case location s of
        Some loc \<Rightarrow>
          if map_shown s then
            s\<lparr>animations := animations s @
                 [\<lparr>latitude = latitude (coords loc), longitude = longitude (coords loc),
                   latitudeDelta = 1 / 100, longitudeDelta = 1 / 100\<rparr>]\<rparr>
          else s
      | None \<Rightarrow> s)"

text \<open>
  \<open>startLocationTracking\<close>, given how \<open>getForegroundPermissionsAsync\<close> settles; the press
  and the code after that \<open>await\<close> are taken as one step, the code after it reads no
  state but the \<open>region\<close> of the render in which the button was pressed.  With the
  permission granted it calls \<open>watchPositionAsync\<close> and drops the promise of the
  subscription: the new subscription joins the live ones, and nothing is removed.
\<close>

definition startLocationTracking :: "thrown + PermissionStatus \<Rightarrow> screen \<Rightarrow> screen" where
  "startLocationTracking r s =
     (case r of
        Inl error \<Rightarrow> show_alert (ErrorSeguimiento (errorMessage error)) s
      | Inr status \<Rightarrow>
          if status \<noteq> Granted then show_alert PermisoDenegado s
          else show_alert SeguimientoActivado (s\<lparr>watchers := watchers s @ [region s]\<rparr>))"

definition watch_callback :: "Region option \<Rightarrow> LocationObject \<Rightarrow> screen \<Rightarrow> screen" where
  "watch_callback captured newLocation s =
     (let s1 = s\<lparr>location := Some newLocation\<rparr>
      in if map_shown s then
           s1\<lparr>region := Some \<lparr>latitude = latitude (coords newLocation),
                              longitude = longitude (coords newLocation),
                              latitudeDelta = (case captured of Some r \<Rightarrow> latitudeDelta r | None \<Rightarrow> 1 / 100),
                              longitudeDelta = (case captured of Some r \<Rightarrow> longitudeDelta r | None \<Rightarrow> 1 / 100)\<rparr>\<rparr>
         else s1)"

subsection \<open>Events of the screen\<close>

datatype sevent =
    PermissionSettled PermissionStatus
  | PositionSettled "thrown + LocationObject"
  | NetInfoFetchSettled "bool option"
  | NetInfoEvent "bool option"
  | PressCenter
  | PressTrack "thrown + PermissionStatus"
  | WatchUpdate nat LocationObject
  | EffectsFlushed

definition screen_step :: "sevent \<Rightarrow> screen \<Rightarrow> screen" where
  "screen_step e s =
     (case e of
        PermissionSettled status \<Rightarrow>
          if startup s = AwaitPermission then permission_settled status s else s
      | PositionSettled r \<Rightarrow>
          if startup s = AwaitPosition then position_settled r s else s
      | NetInfoFetchSettled st \<Rightarrow>
          if 0 < netFetches s then checkInternetConnection st s else s
      | NetInfoEvent st \<Rightarrow> listener (closure_isConnected s) st s
      | PressCenter \<Rightarrow> if map_shown s then centerMapOnLocation s else s
      | PressTrack r \<Rightarrow> if map_shown s then startLocationTracking r s else s
      | WatchUpdate k newLocation \<Rightarrow>
          if k < length (watchers s) then watch_callback (watchers s ! k) newLocation s else s
      | EffectsFlushed \<Rightarrow> effects_flushed s)"

fun screen_run :: "screen \<Rightarrow> sevent list \<Rightarrow> screen" where
  "screen_run s [] = s"
| "screen_run s (e # es) = screen_run (screen_step e s) es"

text \<open>The state at the first render, after both effects have run.  (Should the
  permission request reject, the startup effect ends there with nothing changed: no
  event.)\<close>

definition initial_screen :: screen where
  "initial_screen =
     \<lparr>location = None, errorMsg = None, loading = True, region = None, isConnected_app = None,
      startup = AwaitPermission, closure_isConnected = None, netFetches = 1,
      positionFetches = 0, watchers = [], alerts = [], animations = []\<rparr>"

text \<open>The three values of a connectivity status, and the alerts about a transition.\<close>

datatype status = Unknown | Connected | Disconnected

fun status_of :: "bool option \<Rightarrow> status" where
  "status_of None = Unknown"
| "status_of (Some True) = Connected"
| "status_of (Some False) = Disconnected"

definition new_alerts :: "screen \<Rightarrow> screen \<Rightarrow> alert list" where
  "new_alerts s s' = drop (length (alerts s)) (alerts s')"

section \<open>The screen with the monitor inside\<close>

text \<open>
  \<open>LocationApp\<close> renders \<open>InternetConnectionCheck\<close> in its main view only; the component
  is mounted when the main view appears.  The two share no state: an event of the
  screen is handled by the screen, an event of the monitor by the monitor.
\<close>

record app =
  scr :: screen
  mon :: "monitor option"

datatype event = ScreenEvent sevent | MonitorEvent nat mevent

definition mount_children :: "app \<Rightarrow> app" where
  "mount_children a =
     (case render (scr a) of
        MainView p \<Rightarrow> (case mon a of None \<Rightarrow> a\<lparr>mon := Some mounted_monitor\<rparr> | Some m \<Rightarrow> a)
      | _ \<Rightarrow> a\<lparr>mon := None\<rparr>)"

definition app_step :: "event \<Rightarrow> app \<Rightarrow> app" where
  "app_step e a =
     (case e of
        ScreenEvent se \<Rightarrow> mount_children (a\<lparr>scr := screen_step se (scr a)\<rparr>)
      | MonitorEvent now me \<Rightarrow> a\<lparr>mon := map_option (step now me) (mon a)\<rparr>)"

fun app_run :: "app \<Rightarrow> event list \<Rightarrow> app" where
  "app_run a [] = a"
| "app_run a (e # es) = app_run (app_step e a) es"

definition initial_app :: app where
  "initial_app = mount_children \<lparr>scr = initial_screen, mon = None\<rparr>"

text \<open>
  An environment whose interface is up while google.com cannot be reached: NetInfo
  reports a connection to the screen and to the monitor, the permission is granted and
  the position arrives, and the request of the monitor fails.
\<close>

definition madrid :: LocationObject where
  "madrid = \<lparr>coords = \<lparr>latitude = 404168 / 10000, longitude = - (37038 / 10000), accuracy = Some 5\<rparr>\<rparr>"

definition captive_network :: "event list" where
  "captive_network =
     [ScreenEvent (NetInfoFetchSettled (Some True)),
      ScreenEvent EffectsFlushed,
      ScreenEvent (PermissionSettled Granted),
      ScreenEvent (PositionSettled (Inr madrid)),
      MonitorEvent 20 (NetInfoSettled 0 (Fetched (Some True))),
      MonitorEvent 900 (ProbeFailed 0)]"

section \<open>Scenarios and auxiliary notions\<close>

text \<open>The state in which the permission has been refused: the startup effect has
  ended with the message set, \<open>n\<close> position fetches made and the subscriptions \<open>ws\<close>.\<close>

definition refused :: "nat \<Rightarrow> Region option list \<Rightarrow> screen \<Rightarrow> bool" where
  "refused n ws s =
     (startup s = Settled \<and> loading s = False \<and> errorMsg s = Some permission_message \<and>
      positionFetches s = n \<and> watchers s = ws)"

text \<open>The button 'Seguimiento en tiempo real' pressed twice on a located screen, the
  permission being granted both times.\<close>

definition tracking_twice :: "sevent list" where
  "tracking_twice =
     [PermissionSettled Granted, PositionSettled (Inr madrid),
      PressTrack (Inr Granted), PressTrack (Inr Granted)]"

text \<open>
  The notification rule in the words of the specification: a notification on
  Unknown to Connected, Connected to Disconnected and Disconnected to Connected, none
  on any other pair; and the notifications of a sequence of status updates.
\<close>

fun spec_notifies :: "status \<Rightarrow> status \<Rightarrow> alert list" where
  "spec_notifies Unknown Connected = [ConexionRestablecida]"
| "spec_notifies Connected Disconnected = [ConexionPerdida]"
| "spec_notifies Disconnected Connected = [ConexionRestablecida]"
| "spec_notifies p q = []"

fun spec_notifications :: "status \<Rightarrow> status list \<Rightarrow> alert list" where
  "spec_notifications p [] = []"
| "spec_notifications p (q # qs) = spec_notifies p q @ spec_notifications q qs"

text \<open>
  The rule as amended: that of the specification, and a notification of the loss also
  on Connected to Unknown, which is what a report of null after a connection is.
\<close>

definition amended_notifies :: "status \<Rightarrow> status \<Rightarrow> alert list" where
  "amended_notifies p q =
     (if p = Connected \<and> q = Unknown then [ConexionPerdida] else spec_notifies p q)"

fun amended_notifications :: "status \<Rightarrow> status list \<Rightarrow> alert list" where
  "amended_notifications p [] = []"
| "amended_notifications p (q # qs) = amended_notifies p q @ amended_notifications q qs"

text \<open>
  A sequence of reports delivered to the listener, boolean or null, React running the
  effect again after each of them, before the next report arrives.
\<close>

fun listener_updates :: "bool option list \<Rightarrow> sevent list" where
  "listener_updates [] = []"
| "listener_updates (v # vs) = NetInfoEvent v # EffectsFlushed # listener_updates vs"

text \<open>A screen that has been told of a connection by the listener, before and after
  React has run the effect again.\<close>

definition online_stale :: screen where
  "online_stale = screen_run initial_screen [NetInfoEvent (Some True)]"

definition online :: screen where
  "online = screen_run initial_screen [NetInfoEvent (Some True), EffectsFlushed]"

text \<open>A screen that has been told of a connection and then of its loss by the listener;
  calls of \<open>checkInternetConnection\<close> are still suspended.\<close>

definition gone_offline :: screen where
  "gone_offline =
     screen_run initial_screen
       [NetInfoEvent (Some True), EffectsFlushed, NetInfoEvent (Some False), EffectsFlushed]"

text \<open>What NetInfo reports in an event of the screen, if the event comes from NetInfo.\<close>

fun netinfo_report :: "sevent \<Rightarrow> bool option option" where
  "netinfo_report (NetInfoFetchSettled st) = Some st"
| "netinfo_report (NetInfoEvent st) = Some st"
| "netinfo_report e = None"

section \<open>Properties of the connectivity monitor\<close>

subsection \<open>Bookkeeping\<close>

lemma bookkeeping_commit [simp]:
  "inflight (commit us s) = inflight s"
  "nextId (commit us s) = nextId s"
  "probes (commit us s) = probes s"
  unfolding commit_def
  by (induction us arbitrary: s; (simp, (case_tac a; simp)?))+

lemma isConnected_commit_keeps:
  "isConnected s \<noteq> None \<Longrightarrow> isConnected (commit us s) \<noteq> None"
  unfolding commit_def
proof (induction us arbitrary: s)
  case Nil
  then show ?case by simp
next
  case (Cons u us)
  then show ?case by (cases u) auto
qed

lemma isConnected_handler:
  "isConnected (snd (handler now e s)) = isConnected s"
  by (auto simp: handler_def checkConnection_def netinfo_settled_def probe_settled_def
      split: mevent.splits option.splits stage.splits netinfo_result.splits)

lemma isConnected_step_keeps:
  "isConnected s \<noteq> None \<Longrightarrow> isConnected (step now e s) \<noteq> None"
  by (simp add: step_def isConnected_commit_keeps isConnected_handler)

lemma isConnected_run_keeps:
  "isConnected s \<noteq> None \<Longrightarrow> isConnected (run s evs) \<noteq> None"
  by (induction s evs rule: run.induct) (simp_all add: isConnected_step_keeps)

lemma run_append: "run s (xs @ ys) = run (run s xs) ys"
  by (induction s xs rule: run.induct) simp_all

lemma wf_step: "wf s \<Longrightarrow> wf (step now e s)"
  by (auto simp: wf_def step_def handler_def checkConnection_def netinfo_settled_def
        probe_settled_def
      split: mevent.splits option.splits stage.splits netinfo_result.splits if_splits)

lemma wf_run: "wf s \<Longrightarrow> wf (run s evs)"
  by (induction s evs rule: run.induct) (simp_all add: wf_step)

lemma wf_mounted: "wf mounted_monitor"
  by (simp add: wf_def mounted_monitor_def checkConnection_def initial_def)

lemma ended_unprobed_step: "ended_unprobed i s \<Longrightarrow> ended_unprobed i (step now e s)"
  by (auto simp: ended_unprobed_def step_def handler_def checkConnection_def netinfo_settled_def
        probe_settled_def
      split: mevent.splits option.splits stage.splits netinfo_result.splits if_splits)

lemma ended_unprobed_run: "ended_unprobed i s \<Longrightarrow> ended_unprobed i (run s evs)"
  by (induction s evs rule: run.induct) (simp_all add: ended_unprobed_step)

lemma mounted_monitor_state:
  "mounted_monitor =
     \<lparr>isConnected = None, isChecking = True, lastChecked = None,
      inflight = [0 \<mapsto> AwaitNetInfo], nextId = 1, probes = []\<rparr>"
  by (simp add: mounted_monitor_def checkConnection_def initial_def commit_def)

lemma race_state:
  "run mounted_monitor race_prefix =
     \<lparr>isConnected = Some True, isChecking = False, lastChecked = Some 300,
      inflight = [0 \<mapsto> AwaitProbe 10], nextId = 2, probes = [1, 0]\<rparr>"
  by (simp add: race_prefix_def mounted_monitor_def initial_def step_def handler_def
      checkConnection_def netinfo_settled_def probe_settled_def commit_def finally_block_def
      truthy_def)

subsection \<open>Late results\<close>

text \<open>
  Claim C1 says that a request of an older check that settles after a newer check has
  started does not alter the status set by the newer check.  The component keeps no
  identifier of the latest check and cancels nothing when a check starts, so the claim
  fails: in the race above check 1, started after check 0, has completed with Connected
  while the request of check 0 is pending; when the timer of check 0 aborts it, the
  status becomes Disconnected.
\<close>

theorem stale_probe_overwrites_counterexample:
  "inflight (run mounted_monitor race_prefix) 0 = Some (AwaitProbe 10) \<and>
   inflight (run mounted_monitor race_prefix) 1 = None \<and>
   nextId (run mounted_monitor race_prefix) = 2 \<and>
   isConnected (run mounted_monitor race_prefix) = Some True \<and>
   isConnected (run mounted_monitor (race_prefix @ [(5010, TimeoutFired 0)])) = Some False"
  by (simp add: run_append race_state step_def handler_def probe_settled_def commit_def
      finally_block_def catch_block_def probe_timeout_def)

text \<open>
  Claim C1 as amended: a request that settles sets the status to its own outcome in
  whatever state the other checks are, so the status is the result of the check that
  settled last, not of the check that started last.
\<close>

theorem settled_probe_sets_status:
  assumes "inflight s i = Some (AwaitProbe t0)"
  shows "isConnected (step now (ProbeResponded i ok) s) = Some ok \<and>
         isConnected (step now (ProbeFailed i) s) = Some False \<and>
         (t0 + probe_timeout \<le> now \<longrightarrow> isConnected (step now (TimeoutFired i) s) = Some False)"
  using assms
  by (simp add: step_def handler_def probe_settled_def commit_def catch_block_def
      finally_block_def)

theorem settled_probe_sets_status_witness:
  "inflight (run mounted_monitor race_prefix) 0 = Some (AwaitProbe 10) \<and>
   isConnected (run mounted_monitor race_prefix) = Some True \<and>
   isConnected (step 700 (ProbeFailed 0) (run mounted_monitor race_prefix)) = Some False \<and>
   isConnected (step 5010 (TimeoutFired 0) (run mounted_monitor race_prefix)) = Some False"
proof -
  have a: "inflight (run mounted_monitor race_prefix) 0 = Some (AwaitProbe 10)"
    by (simp add: race_state)
  have b: "isConnected (run mounted_monitor race_prefix) = Some True"
    by (simp add: race_state)
  have c: "10 + probe_timeout \<le> 5010"
    by (simp add: probe_timeout_def)
  show ?thesis
    using settled_probe_sets_status [OF a, of 700] settled_probe_sets_status [OF a, of 5010] a b c
    by simp
qed

subsection \<open>An inactive interface\<close>

text \<open>
  Claim C3: when the interface-state query of a check reports no active interface
  (\<open>isConnected\<close> false or null), the status becomes Disconnected, no request is issued
  in that step, and none is issued for that check by anything that happens later.
\<close>

theorem inactive_interface_skips_probe:
  assumes "s = run mounted_monitor pre"
    and "inflight s i = Some AwaitNetInfo"
    and "\<not> truthy st"
  shows "isConnected (step now (NetInfoSettled i (Fetched st)) s) = Some False \<and>
         probes (step now (NetInfoSettled i (Fetched st)) s) = probes s \<and>
         i \<notin> set (probes (run (step now (NetInfoSettled i (Fetched st)) s) evs))"
proof -
  let ?s' = "step now (NetInfoSettled i (Fetched st)) s"
  have w: "wf s"
    using assms(1) wf_mounted wf_run by simp
  have st: "isConnected ?s' = Some False"
    using assms(2,3)
    by (simp add: step_def handler_def netinfo_settled_def commit_def finally_block_def)
  have pr: "probes ?s' = probes s"
    using assms(2,3) by (simp add: step_def handler_def netinfo_settled_def)
  have "ended_unprobed i ?s'"
    using w assms(2,3)
    by (auto simp: ended_unprobed_def wf_def step_def handler_def netinfo_settled_def)
  then have "ended_unprobed i (run ?s' evs)"
    by (rule ended_unprobed_run)
  then have "i \<notin> set (probes (run ?s' evs))"
    by (simp add: ended_unprobed_def)
  with st pr show ?thesis by simp
qed

theorem inactive_interface_skips_probe_witness:
  "inflight (run mounted_monitor []) 0 = Some AwaitNetInfo \<and> \<not> truthy (Some False) \<and>
   isConnected (step 7 (NetInfoSettled 0 (Fetched (Some False))) (run mounted_monitor []))
     = Some False \<and>
   probes (step 7 (NetInfoSettled 0 (Fetched (Some False))) (run mounted_monitor [])) = [] \<and>
   0 \<notin> set (probes (run (step 7 (NetInfoSettled 0 (Fetched (Some False))) (run mounted_monitor []))
                       [(9, ProbeResponded 0 True), (30000, IntervalTick)]))"
proof -
  have a: "inflight (run mounted_monitor []) 0 = Some AwaitNetInfo"
    by (simp add: mounted_monitor_state)
  have b: "\<not> truthy (Some False)"
    by (simp add: truthy_def)
  have c: "probes (run mounted_monitor []) = []"
    by (simp add: mounted_monitor_state)
  show ?thesis
    using inactive_interface_skips_probe [OF refl a b, of 7
        "[(9, ProbeResponded 0 True), (30000, IntervalTick)]"] a b c
    by simp
qed

subsection \<open>The timeout\<close>

text \<open>
  Claim C4: when the request of a check is still pending as its 5000 ms timer fires, the
  component ends in exactly the state in which a network error of that request, or a
  response that is not ok, would leave it: the status is Disconnected, and nothing in
  the state tells a timeout from another failure.
\<close>

theorem timeout_is_plain_failure:
  assumes "inflight s i = Some (AwaitProbe t0)"
    and "t0 + 5000 \<le> now"
  shows "step now (TimeoutFired i) s = step now (ProbeFailed i) s \<and>
         step now (TimeoutFired i) s = step now (ProbeResponded i False) s \<and>
         isConnected (step now (TimeoutFired i) s) = Some False \<and>
         inflight (step now (TimeoutFired i) s) i = None"
  using assms
  by (simp add: step_def handler_def probe_settled_def commit_def catch_block_def
      finally_block_def probe_timeout_def)

theorem timeout_is_plain_failure_witness:
  "inflight (step 20 (NetInfoSettled 0 (Fetched (Some True))) mounted_monitor) 0
     = Some (AwaitProbe 20) \<and>
   (20::nat) + 5000 \<le> 5020 \<and>
   step 5020 (TimeoutFired 0) (step 20 (NetInfoSettled 0 (Fetched (Some True))) mounted_monitor)
     = step 5020 (ProbeFailed 0) (step 20 (NetInfoSettled 0 (Fetched (Some True))) mounted_monitor) \<and>
   isConnected (step 5020 (TimeoutFired 0)
       (step 20 (NetInfoSettled 0 (Fetched (Some True))) mounted_monitor)) = Some False"
proof -
  have a: "inflight (step 20 (NetInfoSettled 0 (Fetched (Some True))) mounted_monitor) 0
             = Some (AwaitProbe 20)"
    by (simp add: mounted_monitor_state step_def handler_def netinfo_settled_def truthy_def)
  have b: "(20::nat) + 5000 \<le> 5020"
    by simp
  show ?thesis
    using timeout_is_plain_failure [OF a b] a b by blast
qed

subsection \<open>Status and timestamp\<close>

text \<open>
  Claim C7: the status and the timestamp are written together.  In every step the
  setters called write the status exactly when they write the timestamp; a step that
  completes a check writes both, and the state after it holds a status and the time of
  that step; a step that writes neither leaves both as they were.  The setters of a
  step are committed as one batch, so no state lies between the two writes.
\<close>

theorem status_and_timestamp_together:
  "list_ex is_status_write (fst (handler now e s))
     = list_ex is_timestamp_write (fst (handler now e s)) \<and>
   (completes now e s \<longrightarrow> list_ex is_status_write (fst (handler now e s))) \<and>
   (list_ex is_status_write (fst (handler now e s)) \<longrightarrow>
      isConnected (step now e s) \<noteq> None \<and> lastChecked (step now e s) = Some now) \<and>
   (\<not> list_ex is_status_write (fst (handler now e s)) \<longrightarrow>
      isConnected (step now e s) = isConnected s \<and> lastChecked (step now e s) = lastChecked s)"
  by (cases e)
     (auto simp: completes_def step_def handler_def checkConnection_def netinfo_settled_def
        probe_settled_def commit_def catch_block_def finally_block_def
      split: option.splits stage.splits netinfo_result.splits)

theorem status_and_timestamp_together_witness:
  "completes 7 (NetInfoSettled 0 (Fetched (Some False))) mounted_monitor \<and>
   list_ex is_status_write (fst (handler 7 (NetInfoSettled 0 (Fetched (Some False))) mounted_monitor)) \<and>
   list_ex is_timestamp_write (fst (handler 7 (NetInfoSettled 0 (Fetched (Some False))) mounted_monitor)) \<and>
   isConnected (step 7 (NetInfoSettled 0 (Fetched (Some False))) mounted_monitor) = Some False \<and>
   lastChecked (step 7 (NetInfoSettled 0 (Fetched (Some False))) mounted_monitor) = Some 7 \<and>
   \<not> list_ex is_status_write (fst (handler 8 IntervalTick mounted_monitor)) \<and>
   isConnected (step 8 IntervalTick mounted_monitor) = isConnected mounted_monitor \<and>
   lastChecked (step 8 IntervalTick mounted_monitor) = lastChecked mounted_monitor"
proof -
  have a: "completes 7 (NetInfoSettled 0 (Fetched (Some False))) mounted_monitor"
    by (simp add: completes_def mounted_monitor_state truthy_def)
  have b: "\<not> list_ex is_status_write (fst (handler 8 IntervalTick mounted_monitor))"
    by (simp add: handler_def checkConnection_def)
  have c: "isConnected (step 7 (NetInfoSettled 0 (Fetched (Some False))) mounted_monitor) = Some False"
    by (simp add: mounted_monitor_state step_def handler_def netinfo_settled_def truthy_def
        commit_def finally_block_def)
  show ?thesis
    using status_and_timestamp_together [of 7 "NetInfoSettled 0 (Fetched (Some False))" mounted_monitor]
      status_and_timestamp_together [of 8 IntervalTick mounted_monitor] a b c
    by blast
qed

section \<open>Properties of the screen\<close>

subsection \<open>Printing numbers\<close>

lemma decimal_digit: "n < 10 \<Longrightarrow> decimal n = [digit_char n]"
  by (simp add: decimal.simps)

lemma decimal_more: "10 \<le> n \<Longrightarrow> decimal n = decimal (n div 10) @ [digit_char (n mod 10)]"
  by (subst decimal.simps) simp

lemma fixed_digits_latitude: "fixed_digits 6 False 40416800 = ''40.416800''"
  by (simp add: fixed_digits_def decimal_digit decimal_more digit_char_def)

lemma fixed_digits_longitude: "fixed_digits 6 True 3703800 = ''-3.703800''"
  by (simp add: fixed_digits_def decimal_digit decimal_more digit_char_def)

lemma fixed_digits_accuracy: "fixed_digits 0 False 5 = ''5''"
  by (simp add: fixed_digits_def decimal_digit decimal_more digit_char_def)

lemma toFixed_latitude:
  assumes "\<bar>x - 404168 / 10000\<bar> < 1 / 1000000000"
  shows "toFixed 6 x = ''40.416800''"
proof -
  have lo: "404168 / 10000 - 1 / 1000000000 < x" and hi: "x < 404168 / 10000 + 1 / 1000000000"
    using assms by linarith+
  have pos: "0 < x"
    using lo by linarith
  have "\<lfloor>x * 10 ^ 6 + 1 / 2\<rfloor> = 40416800"
  proof (rule floor_unique)
    show "of_int 40416800 \<le> x * 10 ^ 6 + 1 / 2" using lo by simp
    show "x * 10 ^ 6 + 1 / 2 < of_int 40416800 + 1" using hi by simp
  qed
  then have "nat \<lfloor>\<bar>x\<bar> * 10 ^ 6 + 1 / 2\<rfloor> = 40416800"
    using pos by simp
  then show ?thesis
    using pos by (simp add: toFixed_def fixed_digits_latitude)
qed

lemma toFixed_longitude:
  assumes "\<bar>x + 37038 / 10000\<bar> < 1 / 1000000000"
  shows "toFixed 6 x = ''-3.703800''"
proof -
  have lo: "- (37038 / 10000) - 1 / 1000000000 < x" and hi: "x < - (37038 / 10000) + 1 / 1000000000"
    using assms by linarith+
  have neg: "x < 0"
    using hi by linarith
  have "\<lfloor>- x * 10 ^ 6 + 1 / 2\<rfloor> = 3703800"
  proof (rule floor_unique)
    show "of_int 3703800 \<le> - x * 10 ^ 6 + 1 / 2" using hi by simp
    show "- x * 10 ^ 6 + 1 / 2 < of_int 3703800 + 1" using lo by simp
  qed
  then have "nat \<lfloor>\<bar>x\<bar> * 10 ^ 6 + 1 / 2\<rfloor> = 3703800"
    using neg by simp
  then show ?thesis
    using neg by (simp add: toFixed_def fixed_digits_longitude)
qed

lemma toFixed_accuracy: "toFixed 0 5 = ''5''"
proof -
  have "\<lfloor>(5::rat) + 1 / 2\<rfloor> = 5"
    by (rule floor_unique) simp_all
  then show ?thesis
    by (simp add: toFixed_def fixed_digits_accuracy)
qed

subsection \<open>A position that arrives\<close>

lemma located:
  "screen_run initial_screen [PermissionSettled Granted, PositionSettled (Inr loc)] =
     \<lparr>location = Some loc, errorMsg = None, loading = False,
      region = Some \<lparr>latitude = latitude (coords loc), longitude = longitude (coords loc),
                      latitudeDelta = 1 / 100, longitudeDelta = 1 / 100\<rparr>,
      isConnected_app = None, startup = Settled, closure_isConnected = None, netFetches = 1,
      positionFetches = 1, watchers = [], alerts = [], animations = []\<rparr>"
  by (simp add: screen_step_def initial_screen_def permission_settled_def position_settled_def
      effects_flushed_def)

text \<open>
  Claim C9: with the permission granted and a position fetched at latitude 40.4168,
  longitude -3.7038 and accuracy 5, the map has one marker, at the coordinate fetched,
  and the first three lines of the info panel are the three strings of the claim.  A
  JavaScript number need not be the decimal fraction exactly (40.4168 is not a binary
  fraction), so the statement is about every position within a billionth of a degree
  of it, which includes the floating-point numbers nearest to the two values.
\<close>

theorem madrid_rendered:
  assumes "\<bar>latitude (coords loc) - 404168 / 10000\<bar> < 1 / 1000000000"
    and "\<bar>longitude (coords loc) + 37038 / 10000\<bar> < 1 / 1000000000"
    and "accuracy (coords loc) = Some 5"
  shows "\<exists>p. render (screen_run initial_screen [PermissionSettled Granted, PositionSettled (Inr loc)])
               = MainView (Some p) \<and>
             map coordinate (markers p)
               = [\<lparr>latitude = latitude (coords loc), longitude = longitude (coords loc)\<rparr>] \<and>
             take 3 (infoBox p)
               = [''Latitud: 40.416800'', ''Longitud: -3.703800'',
                  ''Precisi'' @ [o_acute] @ ''n: '' @ [plus_minus] @ ''5 metros'']"
proof -
  have lat: "toFixed 6 (latitude (coords loc)) = ''40.416800''"
    using assms(1) by (rule toFixed_latitude)
  have lon: "toFixed 6 (longitude (coords loc)) = ''-3.703800''"
    using assms(2) by (rule toFixed_longitude)
  show ?thesis
    unfolding located
    by (simp add: render_def main_view_def map_panel_def lat lon assms(3) toFixed_accuracy)
qed

theorem madrid_rendered_witness:
  "\<bar>latitude (coords madrid) - 404168 / 10000\<bar> < 1 / 1000000000 \<and>
   \<bar>longitude (coords madrid) + 37038 / 10000\<bar> < 1 / 1000000000 \<and>
   accuracy (coords madrid) = Some 5 \<and>
   (\<exists>p. render (screen_run initial_screen [PermissionSettled Granted, PositionSettled (Inr madrid)])
               = MainView (Some p) \<and>
        map coordinate (markers p) = [\<lparr>latitude = 404168 / 10000, longitude = - (37038 / 10000)\<rparr>] \<and>
        take 3 (infoBox p)
               = [''Latitud: 40.416800'', ''Longitud: -3.703800'',
                  ''Precisi'' @ [o_acute] @ ''n: '' @ [plus_minus] @ ''5 metros''])"
proof -
  have a: "\<bar>latitude (coords madrid) - 404168 / 10000\<bar> < 1 / 1000000000"
    by (simp add: madrid_def)
  have b: "\<bar>longitude (coords madrid) + 37038 / 10000\<bar> < 1 / 1000000000"
    by (simp add: madrid_def)
  have c: "accuracy (coords madrid) = Some 5"
    by (simp add: madrid_def)
  have d: "latitude (coords madrid) = 404168 / 10000" "longitude (coords madrid) = - (37038 / 10000)"
    by (simp_all add: madrid_def)
  show ?thesis
    using madrid_rendered [OF a b c] a b c unfolding d by blast
qed

subsection \<open>A permission that is refused\<close>

lemma permission_message_nonempty: "permission_message \<noteq> []"
  by (simp add: permission_message_def)

lemma refused_render: "refused n ws s \<Longrightarrow> render s = ErrorView permission_message"
  by (simp add: refused_def render_def permission_message_nonempty)

lemma refused_no_map: "refused n ws s \<Longrightarrow> \<not> map_shown s"
  by (simp add: map_shown_def refused_render)

lemma refused_step:
  assumes "refused n ws s"
  shows "refused n ws (screen_step e s)"
proof -
  have m: "\<not> map_shown s"
    using assms by (rule refused_no_map)
  show ?thesis
    using assms m
    by (cases e)
       (auto simp: refused_def screen_step_def effects_flushed_def connectivity_effect_def
          checkInternetConnection_def listener_def show_alert_def watch_callback_def Let_def
          split: option.splits)
qed

lemma refused_run: "refused n ws s \<Longrightarrow> refused n ws (screen_run s es)"
  by (induction s es rule: screen_run.induct) (simp_all add: refused_step)

text \<open>
  Claim C6: when the permission request settles with anything but granted, then after
  every further sequence of events loading has ended, the screen renders the error view
  with the permission message (so neither the map nor its buttons), no position fetch
  has been made and no position subscription has been started.
\<close>

theorem denied_permission_is_final:
  assumes "startup s = AwaitPermission"
    and "status \<noteq> Granted"
  shows "loading (screen_run (screen_step (PermissionSettled status) s) es) = False \<and>
         render (screen_run (screen_step (PermissionSettled status) s) es)
           = ErrorView permission_message \<and>
         positionFetches (screen_run (screen_step (PermissionSettled status) s) es)
           = positionFetches s \<and>
         watchers (screen_run (screen_step (PermissionSettled status) s) es) = watchers s"
proof -
  have "refused (positionFetches s) (watchers s) (screen_step (PermissionSettled status) s)"
    using assms
    by (simp add: refused_def screen_step_def permission_settled_def effects_flushed_def
        connectivity_effect_def)
  then have r: "refused (positionFetches s) (watchers s)
                  (screen_run (screen_step (PermissionSettled status) s) es)"
    by (rule refused_run)
  from r refused_render [OF r] show ?thesis
    by (simp add: refused_def)
qed

theorem denied_permission_is_final_witness:
  "startup initial_screen = AwaitPermission \<and> Denied \<noteq> Granted \<and>
   loading (screen_run (screen_step (PermissionSettled Denied) initial_screen)
      [NetInfoFetchSettled (Some True), PressTrack (Inr Granted), PositionSettled (Inr madrid)])
     = False \<and>
   render (screen_run (screen_step (PermissionSettled Denied) initial_screen)
      [NetInfoFetchSettled (Some True), PressTrack (Inr Granted), PositionSettled (Inr madrid)])
     = ErrorView permission_message \<and>
   positionFetches (screen_run (screen_step (PermissionSettled Denied) initial_screen)
      [NetInfoFetchSettled (Some True), PressTrack (Inr Granted), PositionSettled (Inr madrid)])
     = 0"
proof -
  have a: "startup initial_screen = AwaitPermission"
    by (simp add: initial_screen_def)
  have b: "Denied \<noteq> Granted"
    by simp
  have c: "positionFetches initial_screen = 0"
    by (simp add: initial_screen_def)
  show ?thesis
    using denied_permission_is_final [OF a b,
        of "[NetInfoFetchSettled (Some True), PressTrack (Inr Granted), PositionSettled (Inr madrid)]"]
      a c
    by simp
qed

subsection \<open>Tracking subscriptions\<close>

lemma watchers_kept: "\<exists>ws. watchers (screen_step e s) = watchers s @ ws"
  by (cases e)
     (auto simp: screen_step_def effects_flushed_def connectivity_effect_def permission_settled_def
        position_settled_def checkInternetConnection_def listener_def show_alert_def
        centerMapOnLocation_def startLocationTracking_def watch_callback_def Let_def
        split: option.splits sum.splits)

text \<open>
  Claim C2 says that a second start of tracking leaves exactly one live subscription.
  \<open>startLocationTracking\<close> of this screen does not keep the subscription it makes and
  removes none: after two presses with the permission granted two subscriptions are
  live, and both presses have announced that tracking is on.
\<close>

theorem tracking_twice_leaves_two_subscriptions:
  "length (watchers (screen_run initial_screen tracking_twice)) = 2 \<and>
   alerts (screen_run initial_screen tracking_twice) = [SeguimientoActivado, SeguimientoActivado]"
  by (simp add: tracking_twice_def screen_step_def initial_screen_def permission_settled_def
      position_settled_def effects_flushed_def map_shown_def render_def main_view_def
      startLocationTracking_def show_alert_def)

subsection \<open>Notifications\<close>

lemma alerts_step: "\<exists>xs. alerts (screen_step e s) = alerts s @ xs"
  by (cases e)
     (auto simp: screen_step_def effects_flushed_def connectivity_effect_def permission_settled_def
        position_settled_def checkInternetConnection_def listener_def show_alert_def
        centerMapOnLocation_def startLocationTracking_def watch_callback_def Let_def
        split: option.splits sum.splits)

lemma alerts_run: "\<exists>xs. alerts (screen_run s es) = alerts s @ xs"
proof (induction s es rule: screen_run.induct)
  case (1 s)
  then show ?case by simp
next
  case (2 s e es)
  then show ?case using alerts_step [of e s] by auto
qed

lemma new_alerts_trans:
  "new_alerts s (screen_run (screen_step e s) es) =
     new_alerts s (screen_step e s) @
     new_alerts (screen_step e s) (screen_run (screen_step e s) es)"
proof -
  obtain xs where xs: "alerts (screen_step e s) = alerts s @ xs"
    using alerts_step by blast
  obtain ys where ys: "alerts (screen_run (screen_step e s) es) = alerts (screen_step e s) @ ys"
    using alerts_run by blast
  show ?thesis
    by (simp add: new_alerts_def xs ys)
qed

lemma listener_step:
  "new_alerts s (screen_step (NetInfoEvent v) s)
     = amended_notifies (status_of (closure_isConnected s)) (status_of v) \<and>
   isConnected_app (screen_step (NetInfoEvent v) s) = v \<and>
   closure_isConnected (screen_step (NetInfoEvent v) s) = closure_isConnected s"
  by (cases "closure_isConnected s" rule: status_of.cases; cases v rule: status_of.cases)
     (auto simp: new_alerts_def screen_step_def listener_def show_alert_def truthy_def
        amended_notifies_def)

lemma flushed_step:
  "new_alerts s (screen_step EffectsFlushed s) = [] \<and>
   isConnected_app (screen_step EffectsFlushed s) = isConnected_app s \<and>
   closure_isConnected (screen_step EffectsFlushed s) = isConnected_app s"
  by (simp add: new_alerts_def screen_step_def effects_flushed_def connectivity_effect_def)

lemma listener_round:
  assumes "closure_isConnected s = isConnected_app s"
  shows "new_alerts s (screen_run s [NetInfoEvent v, EffectsFlushed])
           = amended_notifies (status_of (isConnected_app s)) (status_of v) \<and>
         isConnected_app (screen_run s [NetInfoEvent v, EffectsFlushed]) = v \<and>
         closure_isConnected (screen_run s [NetInfoEvent v, EffectsFlushed]) = v"
proof -
  let ?s1 = "screen_step (NetInfoEvent v) s"
  have "new_alerts s (screen_run ?s1 [EffectsFlushed]) =
        new_alerts s ?s1 @ new_alerts ?s1 (screen_run ?s1 [EffectsFlushed])"
    by (rule new_alerts_trans)
  then show ?thesis
    using assms listener_step [of s v] flushed_step [of ?s1] by simp
qed

lemma new_alerts_run_trans:
  "new_alerts s (screen_run (screen_run s xs) ys) =
     new_alerts s (screen_run s xs) @ new_alerts (screen_run s xs) (screen_run (screen_run s xs) ys)"
proof -
  obtain as where as: "alerts (screen_run s xs) = alerts s @ as"
    using alerts_run by blast
  obtain bs where bs: "alerts (screen_run (screen_run s xs) ys) = alerts (screen_run s xs) @ bs"
    using alerts_run by blast
  show ?thesis
    by (simp add: new_alerts_def as bs)
qed

lemma listener_run:
  "closure_isConnected s = isConnected_app s \<Longrightarrow>
   new_alerts s (screen_run s (listener_updates vs)) =
     amended_notifications (status_of (isConnected_app s)) (map status_of vs)"
proof (induction vs arbitrary: s)
  case Nil
  then show ?case
    by (simp add: new_alerts_def)
next
  case (Cons v vs)
  let ?s2 = "screen_run s [NetInfoEvent v, EffectsFlushed]"
  have r: "new_alerts s ?s2 = amended_notifies (status_of (isConnected_app s)) (status_of v)"
    and f: "isConnected_app ?s2 = v" and c: "closure_isConnected ?s2 = v"
    using listener_round [OF Cons.prems, of v] by simp_all
  have split: "screen_run s (listener_updates (v # vs)) = screen_run ?s2 (listener_updates vs)"
    by simp
  have "new_alerts s (screen_run ?s2 (listener_updates vs)) =
        new_alerts s ?s2 @ new_alerts ?s2 (screen_run ?s2 (listener_updates vs))"
    by (rule new_alerts_run_trans)
  moreover have "new_alerts ?s2 (screen_run ?s2 (listener_updates vs)) =
        amended_notifications (status_of v) (map status_of vs)"
    using Cons.IH [of ?s2] f c by simp
  ultimately show ?case
    unfolding split using r by simp
qed

lemma amended_is_spec_on_booleans:
  "amended_notifications p (map status_of (map Some bs))
     = spec_notifications p (map status_of (map Some bs))"
proof (induction bs arbitrary: p)
  case Nil
  then show ?case by simp
next
  case (Cons b bs)
  have "amended_notifies p (status_of (Some b)) = spec_notifies p (status_of (Some b))"
    by (cases b) (simp_all add: amended_notifies_def)
  then show ?case
    using Cons.IH by simp
qed

lemma fetch_step:
  "new_alerts s (screen_step (NetInfoFetchSettled st) s) =
     (if 0 < netFetches s \<and> \<not> truthy st then [SinConexion] else [])"
  by (auto simp: new_alerts_def screen_step_def checkInternetConnection_def show_alert_def Let_def)

lemma online_stale_state:
  "online_stale =
     initial_screen\<lparr>isConnected_app := Some True, alerts := [ConexionRestablecida]\<rparr>"
  by (simp add: online_stale_def initial_screen_def screen_step_def listener_def show_alert_def
      truthy_def)

lemma online_state:
  "online =
     initial_screen\<lparr>isConnected_app := Some True, closure_isConnected := Some True,
                    netFetches := 2, alerts := [ConexionRestablecida]\<rparr>"
  by (simp add: online_def initial_screen_def screen_step_def effects_flushed_def
      connectivity_effect_def listener_def show_alert_def truthy_def)

lemma gone_offline_state:
  "gone_offline =
     initial_screen\<lparr>isConnected_app := Some False, closure_isConnected := Some False,
                    netFetches := 3, alerts := [ConexionRestablecida, ConexionPerdida]\<rparr>"
  by (simp add: gone_offline_def initial_screen_def screen_step_def effects_flushed_def
      connectivity_effect_def listener_def show_alert_def truthy_def)

text \<open>
  Claim C5 says that, for every sequence of status updates, a connectivity notification
  is shown exactly on Unknown to Connected, Connected to Disconnected and Disconnected
  to Connected, and never when a repeated check confirms the status.  It fails in four
  ways.  The status is also written by \<open>checkInternetConnection\<close>: at startup its
  \<open>NetInfo.fetch()\<close> takes the status from Unknown to Connected with no notification,
  and on a screen that is Disconnected a fetch that reports no connection confirms the
  status and shows the warning 'Sin conexion a Internet'.  The listener itself shows
  'Conexion perdida' when NetInfo reports null after a connection, which is Connected
  to Unknown; and when it is called a second time with a connection before React has
  run the effect again, it compares with the null it closed over and shows 'Conexion
  restablecida' on Connected to Connected.
\<close>

theorem fetch_updates_counterexample:
  "status_of (isConnected_app initial_screen) = Unknown \<and>
   status_of (isConnected_app (screen_step (NetInfoFetchSettled (Some True)) initial_screen))
     = Connected \<and>
   new_alerts initial_screen (screen_step (NetInfoFetchSettled (Some True)) initial_screen) = [] \<and>
   status_of (isConnected_app gone_offline) = Disconnected \<and>
   status_of (isConnected_app (screen_step (NetInfoFetchSettled (Some False)) gone_offline))
     = Disconnected \<and>
   new_alerts gone_offline (screen_step (NetInfoFetchSettled (Some False)) gone_offline)
     = [SinConexion] \<and>
   status_of (isConnected_app online) = Connected \<and>
   status_of (isConnected_app (screen_step (NetInfoEvent None) online)) = Unknown \<and>
   new_alerts online (screen_step (NetInfoEvent None) online) = [ConexionPerdida] \<and>
   status_of (isConnected_app online_stale) = Connected \<and>
   status_of (isConnected_app (screen_step (NetInfoEvent (Some True)) online_stale)) = Connected \<and>
   new_alerts online_stale (screen_step (NetInfoEvent (Some True)) online_stale)
     = [ConexionRestablecida]"
  by (simp add: gone_offline_state online_state online_stale_state new_alerts_def
      initial_screen_def screen_step_def checkInternetConnection_def listener_def show_alert_def
      truthy_def)

text \<open>
  Claim C5 as amended.  A call of the listener shows the alert that the amended rule
  gives for the pair of the status the listener has closed over and the status
  reported: 'Conexion restablecida' when a connection is reported and the status closed
  over is not Connected, 'Conexion perdida' when no connection (false or null) is
  reported and it is Connected, nothing otherwise.  Hence, for every sequence of
  reports, boolean or null, each followed by React running the effect again, the
  alerts are those of the amended rule along the sequence of statuses: the three
  transitions of the specification and Connected to Unknown, and nothing on a report
  that confirms the status; for boolean reports that is the rule of the specification
  itself.  An update made by \<open>checkInternetConnection\<close> shows neither alert, but the
  warning 'Sin conexion a Internet' whenever its fetch reports no connection.
\<close>

theorem listener_notifies_on_change:
  "new_alerts s (screen_step (NetInfoEvent v) s)
     = amended_notifies (status_of (closure_isConnected s)) (status_of v) \<and>
   (closure_isConnected s = isConnected_app s \<longrightarrow>
      new_alerts s (screen_run s (listener_updates vs))
        = amended_notifications (status_of (isConnected_app s)) (map status_of vs) \<and>
      new_alerts s (screen_run s (listener_updates (map Some bs)))
        = spec_notifications (status_of (isConnected_app s)) (map status_of (map Some bs))) \<and>
   new_alerts s (screen_step (NetInfoFetchSettled st) s) =
     (if 0 < netFetches s \<and> \<not> truthy st then [SinConexion] else [])"
  using listener_step [of s v] listener_run [of s vs] listener_run [of s "map Some bs"]
    amended_is_spec_on_booleans [of "status_of (isConnected_app s)" bs] fetch_step [of s st]
  by simp

theorem listener_notifies_on_change_witness:
  "closure_isConnected initial_screen = isConnected_app initial_screen \<and>
   new_alerts initial_screen
     (screen_run initial_screen
        (listener_updates [Some True, Some True, None, Some False, Some True, Some False, None]))
     = [ConexionRestablecida, ConexionPerdida, ConexionRestablecida, ConexionPerdida] \<and>
   new_alerts initial_screen
     (screen_run initial_screen (listener_updates (map Some [True, True, False, False, True])))
     = [ConexionRestablecida, ConexionPerdida, ConexionRestablecida] \<and>
   new_alerts initial_screen (screen_step (NetInfoEvent (Some True)) initial_screen)
     = [ConexionRestablecida] \<and>
   new_alerts initial_screen (screen_step (NetInfoFetchSettled (Some False)) initial_screen)
     = [SinConexion]"
proof -
  have a: "isConnected_app initial_screen = None" "closure_isConnected initial_screen = None"
    "netFetches initial_screen = 1"
    by (simp_all add: initial_screen_def)
  show ?thesis
    using listener_notifies_on_change [of initial_screen "Some True"
        "[Some True, Some True, None, Some False, Some True, Some False, None]"
        "[True, True, False, False, True]" "Some False"]
    by (simp add: a truthy_def amended_notifies_def)
qed

subsection \<open>The status Unknown\<close>

lemma completes_known: "completes now e s \<Longrightarrow> isConnected (step now e s) \<noteq> None"
  by (cases e)
     (auto simp: completes_def step_def handler_def netinfo_settled_def probe_settled_def
        commit_def catch_block_def finally_block_def
      split: option.splits stage.splits netinfo_result.splits)

lemma screen_flag_step_keeps:
  "isConnected_app s \<noteq> None \<Longrightarrow> netinfo_report e \<noteq> Some None \<Longrightarrow>
   isConnected_app (screen_step e s) \<noteq> None"
  by (cases e)
     (auto simp: screen_step_def effects_flushed_def connectivity_effect_def
        permission_settled_def position_settled_def checkInternetConnection_def listener_def
        show_alert_def centerMapOnLocation_def startLocationTracking_def watch_callback_def
        Let_def
      split: option.splits sum.splits)

lemma screen_flag_run_keeps:
  "isConnected_app s \<noteq> None \<Longrightarrow> Some None \<notin> set (map netinfo_report es) \<Longrightarrow>
   isConnected_app (screen_run s es) \<noteq> None"
proof (induction s es rule: screen_run.induct)
  case (1 s)
  then show ?case by simp
next
  case (2 s e es)
  have "netinfo_report e \<noteq> Some None"
    using "2.prems"(2) by auto
  then have "isConnected_app (screen_step e s) \<noteq> None"
    using "2.prems"(1) by (rule screen_flag_step_keeps [rotated])
  moreover have "Some None \<notin> set (map netinfo_report es)"
    using "2.prems"(2) by simp
  ultimately show ?case
    using "2.IH" by simp
qed

text \<open>
  Claim C8 says that the connectivity status is Unknown only initially and is never set
  back to Unknown by any sequence of checks and interface-state events.  That holds for
  the status of the monitor, but the claim also covers the listener of the screen,
  which stores what NetInfo reports as it is: on a screen that is Connected a report of
  null sets the status of the screen back to Unknown, and it is still Unknown after
  React has run the effect again.
\<close>

theorem screen_status_reenters_unknown_counterexample:
  "status_of (isConnected_app online) = Connected \<and>
   status_of (isConnected_app (screen_step (NetInfoEvent None) online)) = Unknown \<and>
   status_of (isConnected_app (screen_run online [NetInfoEvent None, EffectsFlushed])) = Unknown"
  by (simp add: online_state initial_screen_def screen_step_def listener_def show_alert_def
      effects_flushed_def connectivity_effect_def truthy_def)

text \<open>
  Claim C8 as amended.  The status of the monitor is Unknown (null) when the component
  is mounted; once it is not Unknown it is not Unknown after any sequence of checks,
  NetInfo events and timers; and it is not Unknown after a step that completes a check,
  nor after anything that follows.  The status of the screen is, after a call of its
  listener, what NetInfo has reported in that call; once it is not Unknown it is not
  Unknown after any sequence of events in which NetInfo reports no null.
\<close>

theorem unknown_only_initially:
  "isConnected mounted_monitor = None \<and>
   (isConnected s \<noteq> None \<longrightarrow> isConnected (run s evs) \<noteq> None) \<and>
   (completes now e s \<longrightarrow> isConnected (run (step now e s) evs) \<noteq> None) \<and>
   isConnected_app (screen_step (NetInfoEvent v) sc) = v \<and>
   (isConnected_app sc \<noteq> None \<and> Some None \<notin> set (map netinfo_report es) \<longrightarrow>
      isConnected_app (screen_run sc es) \<noteq> None)"
proof -
  have c: "completes now e s \<longrightarrow> isConnected (run (step now e s) evs) \<noteq> None"
    using completes_known isConnected_run_keeps by blast
  have k: "isConnected s \<noteq> None \<longrightarrow> isConnected (run s evs) \<noteq> None"
    using isConnected_run_keeps by blast
  have i: "isConnected mounted_monitor = None"
    by (simp add: mounted_monitor_state)
  have l: "isConnected_app (screen_step (NetInfoEvent v) sc) = v"
    using listener_step [of sc v] by simp
  have r: "isConnected_app sc \<noteq> None \<and> Some None \<notin> set (map netinfo_report es) \<longrightarrow>
             isConnected_app (screen_run sc es) \<noteq> None"
    using screen_flag_run_keeps by blast
  from i k c l r show ?thesis by blast
qed

theorem unknown_only_initially_witness:
  "isConnected (step 3 (NetInfoChanged (Some False)) mounted_monitor) \<noteq> None \<and>
   completes 7 (NetInfoSettled 0 (Fetched (Some False)))
     (step 3 (NetInfoChanged (Some False)) mounted_monitor) \<and>
   isConnected (run (step 3 (NetInfoChanged (Some False)) mounted_monitor)
      [(30000, IntervalTick), (30010, NetInfoSettled 1 (Fetched (Some True)))]) \<noteq> None \<and>
   isConnected (run (step 7 (NetInfoSettled 0 (Fetched (Some False)))
                       (step 3 (NetInfoChanged (Some False)) mounted_monitor))
      [(30000, IntervalTick), (30010, NetInfoSettled 1 (Fetched (Some True)))]) \<noteq> None \<and>
   isConnected_app online \<noteq> None \<and>
   Some None \<notin> set (map netinfo_report
                       [NetInfoEvent (Some False), EffectsFlushed, NetInfoFetchSettled (Some True)]) \<and>
   isConnected_app (screen_run online
      [NetInfoEvent (Some False), EffectsFlushed, NetInfoFetchSettled (Some True)]) \<noteq> None"
proof -
  have s: "step 3 (NetInfoChanged (Some False)) mounted_monitor =
             \<lparr>isConnected = Some False, isChecking = True, lastChecked = Some 3,
              inflight = [0 \<mapsto> AwaitNetInfo], nextId = 1, probes = []\<rparr>"
    by (simp add: mounted_monitor_state step_def handler_def truthy_def commit_def)
  have a: "isConnected (step 3 (NetInfoChanged (Some False)) mounted_monitor) \<noteq> None"
    by (simp add: s)
  have b: "completes 7 (NetInfoSettled 0 (Fetched (Some False)))
             (step 3 (NetInfoChanged (Some False)) mounted_monitor)"
    by (simp add: s completes_def truthy_def)
  have c: "isConnected_app online \<noteq> None"
    by (simp add: online_state)
  have d: "Some None \<notin> set (map netinfo_report
             [NetInfoEvent (Some False), EffectsFlushed, NetInfoFetchSettled (Some True)])"
    by simp
  show ?thesis
    using unknown_only_initially [of "step 3 (NetInfoChanged (Some False)) mounted_monitor"
        "[(30000, IntervalTick), (30010, NetInfoSettled 1 (Fetched (Some True)))]"
        7 "NetInfoSettled 0 (Fetched (Some False))" "Some True" online
        "[NetInfoEvent (Some False), EffectsFlushed, NetInfoFetchSettled (Some True)]"] a b c d
    by blast
qed

section \<open>Properties of the screen with the monitor\<close>

lemma captive_network_screen:
  "scr (app_run initial_app captive_network) =
     \<lparr>location = Some madrid, errorMsg = None, loading = False,
      region = Some \<lparr>latitude = latitude (coords madrid), longitude = longitude (coords madrid),
                      latitudeDelta = 1 / 100, longitudeDelta = 1 / 100\<rparr>,
      isConnected_app = Some True, startup = Settled, closure_isConnected = Some True,
      netFetches = 1, positionFetches = 1, watchers = [], alerts = [], animations = []\<rparr>"
  by (simp add: captive_network_def initial_app_def mount_children_def app_step_def render_def
      main_view_def initial_screen_def screen_step_def effects_flushed_def connectivity_effect_def
      checkInternetConnection_def permission_settled_def position_settled_def truthy_def
      split: option.splits)

lemma captive_network_monitor:
  "map_option isConnected (mon (app_run initial_app captive_network)) = Some (Some False)"
  by (simp add: captive_network_def initial_app_def mount_children_def app_step_def render_def
      main_view_def initial_screen_def screen_step_def effects_flushed_def connectivity_effect_def
      checkInternetConnection_def permission_settled_def position_settled_def truthy_def
      mounted_monitor_state step_def handler_def netinfo_settled_def probe_settled_def
      commit_def catch_block_def finally_block_def
      split: option.splits)

lemma screen_flag_source:
  "isConnected_app (screen_step se s) = isConnected_app s \<or>
   netinfo_report se = Some (isConnected_app (screen_step se s))"
  by (cases se)
     (auto simp: screen_step_def effects_flushed_def connectivity_effect_def permission_settled_def
        position_settled_def checkInternetConnection_def listener_def show_alert_def
        centerMapOnLocation_def startLocationTracking_def watch_callback_def Let_def
        split: option.splits sum.splits)

text \<open>
  Claim C10: the connectivity flag of the screen comes from NetInfo alone.  No event of
  the monitor, the settling of a request included, changes anything in the state of the
  screen, its alerts included; an event of the screen leaves the flag as it was or sets
  it to what NetInfo reports in that event; and in the environment whose interface is
  up while the request fails, the info panel reads 'Internet: Conectado' while the status
  of the monitor is Disconnected.
\<close>

theorem screen_flag_follows_netinfo:
  "scr (app_step (MonitorEvent now me) a) = scr a \<and>
   (isConnected_app (screen_step se s) = isConnected_app s \<or>
    netinfo_report se = Some (isConnected_app (screen_step se s))) \<and>
   (\<exists>p m. render (scr (app_run initial_app captive_network)) = MainView (Some p) \<and>
          infoBox p ! 3 = ''Internet: Conectado'' \<and>
          mon (app_run initial_app captive_network) = Some m \<and>
          isConnected m = Some False)"
proof -
  have m: "scr (app_step (MonitorEvent now me) a) = scr a"
    by (simp add: app_step_def)
  have v: "\<exists>p. render (scr (app_run initial_app captive_network)) = MainView (Some p) \<and>
               infoBox p ! 3 = ''Internet: Conectado''"
    unfolding captive_network_screen
    by (simp add: render_def main_view_def map_panel_def truthy_def)
  have c: "\<exists>m. mon (app_run initial_app captive_network) = Some m \<and> isConnected m = Some False"
    using captive_network_monitor by auto
  from m screen_flag_source v c show ?thesis by blast
qed

theorem screen_flag_follows_netinfo_witness:
  "scr (app_step (MonitorEvent 900 (ProbeFailed 0)) initial_app) = scr initial_app \<and>
   isConnected_app (screen_step (NetInfoEvent (Some True)) initial_screen) = Some True \<and>
   isConnected_app (screen_step (PermissionSettled Granted) initial_screen) = None"
proof -
  have a: "isConnected_app (screen_step (NetInfoEvent (Some True)) initial_screen) = Some True"
    by (simp add: screen_step_def listener_def effects_flushed_def connectivity_effect_def
        show_alert_def truthy_def initial_screen_def)
  have b: "isConnected_app (screen_step (PermissionSettled Granted) initial_screen) = None"
    by (simp add: screen_step_def permission_settled_def effects_flushed_def initial_screen_def)
  show ?thesis
    using screen_flag_follows_netinfo [of 900 "ProbeFailed 0" initial_app
        "NetInfoEvent (Some True)" initial_screen] a b
    by blast
qed

end
